theory Spec2Isabelle
  imports Main "HOL-Library.Word"
begin

section \<open>Governance proposal status (x/gov/types, proposal file)\<close>

text \<open>
  \<^verbatim>\<open>type ProposalStatus byte\<close>: a status is one byte, and every byte is a value of the
  type; the six named constants are the bytes 0x00 .. 0x05.
\<close>

type_synonym ProposalStatus = "8 word"

definition StatusNil :: ProposalStatus where "StatusNil = 0x00"
definition StatusDepositPeriod :: ProposalStatus where "StatusDepositPeriod = 0x01"
definition StatusVotingPeriod :: ProposalStatus where "StatusVotingPeriod = 0x02"
definition StatusPassed :: ProposalStatus where "StatusPassed = 0x03"
definition StatusRejected :: ProposalStatus where "StatusRejected = 0x04"
definition StatusFailed :: ProposalStatus where "StatusFailed = 0x05"

text \<open>
  \<^verbatim>\<open>ProposalStatusFromString\<close> returns the pair (status, error); the error is
  \<open>None\<close> for Go's nil and otherwise carries the text built by
  \<^verbatim>\<open>fmt.Errorf("'%s' is not a valid proposal status", str)\<close>.
\<close>

definition not_valid_status_msg :: "string \<Rightarrow> string" where
  "not_valid_status_msg str =
     CHR 0x27 # str @ CHR 0x27 # '' is not a valid proposal status''"

definition ProposalStatusFromString :: "string \<Rightarrow> ProposalStatus \<times> string option" where
  "ProposalStatusFromString str =
     (if str = ''DepositPeriod'' then (StatusDepositPeriod, None)
      else if str = ''VotingPeriod'' then (StatusVotingPeriod, None)
      else if str = ''Passed'' then (StatusPassed, None)
      else if str = ''Rejected'' then (StatusRejected, None)
      else if str = ''Failed'' then (StatusFailed, None)
      else if str = '''' then (StatusNil, None)
      else (0xff, Some (not_valid_status_msg str)))"

definition ValidProposalStatus :: "ProposalStatus \<Rightarrow> bool" where
  "ValidProposalStatus status =
     (if status = StatusDepositPeriod \<or>
         status = StatusVotingPeriod \<or>
         status = StatusPassed \<or>
         status = StatusRejected \<or>
         status = StatusFailed
      then True else False)"

text \<open>\<^verbatim>\<open>func (status ProposalStatus) String() string\<close>; the default branch is the empty string.\<close>

definition ProposalStatus_String :: "ProposalStatus \<Rightarrow> string" where
  "ProposalStatus_String status =
     (if status = StatusDepositPeriod then ''DepositPeriod''
      else if status = StatusVotingPeriod then ''VotingPeriod''
      else if status = StatusPassed then ''Passed''
      else if status = StatusRejected then ''Rejected''
      else if status = StatusFailed then ''Failed''
      else '''')"

section \<open>Store filters of the wasm module (x/wasm/module\_adapter.go)\<close>

text \<open>
  Heights are Go \<^verbatim>\<open>int64\<close>. The filters only compare heights, they never compute with
  them, so a height is an \<open>int\<close> here and nothing can overflow.
\<close>

type_synonym height = int

text \<open>
  Modelled from the spec: the constant \<^verbatim>\<open>ModuleName\<close> of x/wasm/types is not in src/;
  it is the store name of the wasm module.
\<close>

definition ModuleName :: string where
  "ModuleName = ''wasm''"

text \<open>
  Modelled from the spec: \<^verbatim>\<open>types2.GetEarthHeight\<close> and \<^verbatim>\<open>types2.HigherThanEarth\<close>
  live in libs/tendermint/types, which is not in src/. \<^verbatim>\<open>GetEarthHeight()\<close> reads the
  process-wide activation height, which every function below takes as its first argument
  \<open>earth\<close>. For the predicate the spec says that calls are permitted only when the
  current height is strictly greater than the activation height.
\<close>

definition HigherThanEarth :: "height \<Rightarrow> height \<Rightarrow> bool" where
  "HigherThanEarth earth h = (earth < h)"

text \<open>
  \<^verbatim>\<open>store.CommitKVStore\<close> is an interface value that may be nil: \<open>None\<close> is nil.
  Of a store the filters touch the version marker only.
\<close>

record CommitKVStore =
  upgradeVersion :: height

text \<open>
  Modelled from the spec: \<^verbatim>\<open>SetUpgradeVersion\<close> (libs/cosmos-sdk/store) is not in
  src/; it stamps the version marker of the store it is called on.
\<close>

definition SetUpgradeVersion :: "height \<Rightarrow> CommitKVStore \<Rightarrow> CommitKVStore" where
  "SetUpgradeVersion h s = s\<lparr>upgradeVersion := h\<rparr>"

text \<open>
  A \<^verbatim>\<open>store.StoreFilter\<close> is \<^verbatim>\<open>func(module string, h int64, s CommitKVStore) bool\<close>.
  The result \<open>True\<close> filters the module's store out, \<open>False\<close> keeps it. The store is passed
  by reference, so the model returns it next to the boolean.
\<close>

type_synonym StoreFilter =
  "string \<Rightarrow> height \<Rightarrow> CommitKVStore option \<Rightarrow> bool \<times> CommitKVStore option"

definition defaultDenyFilter :: StoreFilter where
  "defaultDenyFilter module h s = (module = ModuleName, s)"

definition defaultCommitFilter :: "height \<Rightarrow> StoreFilter" where
  "defaultCommitFilter earth module h s =
     (if module \<noteq> ModuleName then (False, s)
      else if h = earth then
        (False, (case s of None \<Rightarrow> None | Some st \<Rightarrow> Some (SetUpgradeVersion h st)))
      else if HigherThanEarth earth h then (False, s)
      else (True, s))"

definition defaultPruneFilter :: "height \<Rightarrow> StoreFilter" where
  "defaultPruneFilter earth module h s =
     (if module \<noteq> ModuleName then (False, s)
      else if HigherThanEarth earth h then (False, s)
      else (True, s))"

text \<open>
  A \<^verbatim>\<open>store.VersionFilter\<close> maps a height to an enumerator, a function that calls the
  callback it is given once for every (name, version) entry. The callback acts on the
  caller's state \<open>'a\<close>; the enumerator is the state transformer that results.
\<close>

type_synonym 'a VersionCallback = "string \<Rightarrow> height \<Rightarrow> 'a \<Rightarrow> 'a"

definition defaultVersionFilter ::
  "height \<Rightarrow> height \<Rightarrow> 'a VersionCallback \<Rightarrow> 'a \<Rightarrow> 'a" where
  "defaultVersionFilter earth h =
     (if h < 0 then (\<lambda>cb acc. acc)
      else (\<lambda>cb acc. cb ModuleName earth acc))"

text \<open>The entries an enumerator reports: the callback that collects them, in order.\<close>

definition entries ::
  "((string \<times> height) list VersionCallback \<Rightarrow> (string \<times> height) list \<Rightarrow> (string \<times> height) list)
     \<Rightarrow> (string \<times> height) list" where
  "entries enum = enum (\<lambda>name version acc. acc @ [(name, version)]) []"

definition UpgradeHeight :: "height \<Rightarrow> height" where
  "UpgradeHeight earth = earth"

definition CommitFilter :: "height \<Rightarrow> StoreFilter" where
  "CommitFilter earth =
     (if UpgradeHeight earth = 0 then defaultDenyFilter else defaultCommitFilter earth)"

definition PruneFilter :: "height \<Rightarrow> StoreFilter" where
  "PruneFilter earth =
     (if UpgradeHeight earth = 0 then defaultDenyFilter else defaultPruneFilter earth)"

definition VersionFilter ::
  "height \<Rightarrow> height \<Rightarrow> 'a VersionCallback \<Rightarrow> 'a \<Rightarrow> 'a" where
  "VersionFilter earth = defaultVersionFilter earth"

section \<open>The bridge keeper (x/vmbridge/keeper/evm.go)\<close>

subsection \<open>Data\<close>

type_synonym bytes = "8 word list"

text \<open>
  Errors are values. \<open>Wrap e msg\<close> is \<^verbatim>\<open>sdkerrors.Wrap(e, msg)\<close>; \<open>ErrCollaborator\<close>
  is an error made by code outside this file (a decoder, the state transition, the wasm
  runtime), with its text.
\<close>

datatype error =
    ErrUnknownRequest
  | ErrVMBridgeEnable
  | ErrIsNotETHAddr
  | ErrChainConfigNotFound
  | ErrCollaborator string
  | Wrap error string

text \<open>
  A Go call either returns or panics. The handler asserts the dynamic types of the
  decoded values (\<^verbatim>\<open>unpacked[0].(string)\<close>), and a failed assertion panics.
\<close>

datatype 'a outcome = Returns 'a | Panics

text \<open>The values \<^verbatim>\<open>Unpack\<close> hands back as \<^verbatim>\<open>interface{}\<close>, by dynamic type.\<close>

datatype abi_value =
    AbiString string
  | AbiBigInt int
  | AbiBool bool
  | AbiBytes bytes

text \<open>
  What the code reads of \<^verbatim>\<open>sdk.Context\<close>. \<open>GasMeterLimit\<close> is
  \<^verbatim>\<open>ctx.GasMeter().Limit()\<close>, a \<^verbatim>\<open>uint64\<close>.
\<close>

record Context =
  BlockHeight :: height
  ChainID :: string
  TxBytes :: bytes
  GasMeterLimit :: "64 word"
  IsCheckTx :: bool
  IsTraceTx :: bool

text \<open>
  An account, as far as the code uses it: its address and its sequence number, a
  \<^verbatim>\<open>uint64\<close> (\<^verbatim>\<open>GetSequence\<close>, \<^verbatim>\<open>SetSequence\<close>).
\<close>

record Account =
  Address :: bytes
  Sequence :: "64 word"

text \<open>\<^verbatim>\<open>evmtypes.ResultData\<close>: the code reads the return bytes \<^verbatim>\<open>Ret\<close> only.\<close>

record ResultData =
  Ret :: bytes

text \<open>
  The chain state behind the context, as far as this file reads and writes it: the
  account keeper's accounts, the evm keeper's chain configuration (\<open>None\<close>: not found)
  and its parameter \<^verbatim>\<open>MaxGasLimitPerTx\<close>, the wasm keeper's parameter
  \<^verbatim>\<open>VmbridgeEnable\<close>, and everything else (contract code and storage of both
  virtual machines), which only the collaborators touch.
\<close>

record ('cfg, 'w) ChainState =
  accounts :: "bytes \<rightharpoonup> Account"
  chainConfig :: "'cfg option"
  MaxGasLimitPerTx :: "64 word"
  VmbridgeEnable :: bool
  others :: 'w

text \<open>
  The calls with an effect, in the order the code makes them. \<open>Call_CallEvm\<close> marks the
  entry into \<^verbatim>\<open>CallEvm\<close>; the others are calls to collaborators.
\<close>

datatype event =
    Call_LoggerError string error
  | Call_SendToWasm bytes string string int
  | Call_CallEvm "bytes option" int bytes
  | Call_TransitionDb
  | Call_Commit bool
  | Call_SetAccount Account

record ('cfg, 'w) World =
  chain :: "('cfg, 'w) ChainState"
  calls :: "event list"

text \<open>
  \<^verbatim>\<open>evmtypes.StateTransition\<close>, with the fields the code sets. The Go field
  \<^verbatim>\<open>ChainID\<close> is \<open>ChainIDEpoch\<close> here, since the context has a field of that name.
\<close>

record 'db StateTransition =
  AccountNonce :: "64 word"
  Price :: int
  GasLimit :: "64 word"
  Recipient :: "bytes option"
  Amount :: int
  Payload :: bytes
  Csdb :: 'db
  ChainIDEpoch :: int
  TxHash :: bytes
  Sender :: bytes
  Simulate :: bool
  TraceTx :: bool
  TraceTxLog :: bool

subsection \<open>Collaborators\<close>

text \<open>
  The keeper's collaborators and the package functions the code calls that are not in
  src/, as parameters: the theorems hold for every choice of them. A function that reads
  the chain state takes it; one that writes it returns the new one.
  \<open>NewIntFromBigInt\<close> is \<open>None\<close> where the constructor panics.
\<close>

text \<open>
  Modelled from the spec: the types of \<^verbatim>\<open>NewAccountWithAddress\<close> and
  \<^verbatim>\<open>TransitionDb\<close>, whose code is not in src/. \<^verbatim>\<open>NewAccountWithAddress\<close> makes
  an account value and stores nothing (the account is persisted by \<^verbatim>\<open>SetAccount\<close>);
  \<^verbatim>\<open>TransitionDb\<close> executes against the working state \<^verbatim>\<open>Csdb\<close>, which it
  returns updated, and its writes reach the chain state only through \<^verbatim>\<open>Commit\<close>.
\<close>

record ('cfg, 'w, 'db, 'er) Keeper =
  Unpack :: "bytes \<Rightarrow> error + abi_value list"
  NewIntFromBigInt :: "int \<Rightarrow> int option"
  SendToWasm ::
    "Context \<Rightarrow> ('cfg, 'w) ChainState \<Rightarrow> bytes \<Rightarrow> string \<Rightarrow> string \<Rightarrow> int
       \<Rightarrow> error option \<times> ('cfg, 'w) ChainState"
  IsETHAddress :: "string \<Rightarrow> bool"
  AccAddressFromBech32 :: "string \<Rightarrow> error + bytes"
  GetMintERC20Input :: "string \<Rightarrow> bytes \<Rightarrow> int \<Rightarrow> error + bytes"
  GetMintERC20Output :: "bytes \<Rightarrow> bool \<times> error option"
  IbcEvmModuleETHAddr :: bytes
  ParseChainID :: "string \<Rightarrow> error + int"
  NewAccountWithAddress :: "Context \<Rightarrow> ('cfg, 'w) ChainState \<Rightarrow> bytes \<Rightarrow> Account"
  TxHashOf :: "bytes \<Rightarrow> height \<Rightarrow> bytes"
  InfiniteGasMeterLimit :: "64 word"
  CreateEmptyCommitStateDB :: "Context \<Rightarrow> ('cfg, 'w) ChainState \<Rightarrow> 'db"
  TransitionDb ::
    "Context \<Rightarrow> ('cfg, 'w) ChainState \<Rightarrow> 'cfg \<Rightarrow> 'db StateTransition
       \<Rightarrow> (error + 'er \<times> ResultData) \<times> 'db"
  Commit :: "'db \<Rightarrow> bool \<Rightarrow> ('cfg, 'w) ChainState \<Rightarrow> ('cfg, 'w) ChainState"

subsection \<open>Helpers of the Go libraries\<close>

text \<open>\<^verbatim>\<open>fmt.Sprintf("%d", h)\<close> for an integer: decimal digits, with a minus sign.\<close>

fun digits :: "nat \<Rightarrow> string" where
  "digits n =
     (if n < 10 then [char_of (48 + n)]
      else digits (n div 10) @ [char_of (48 + n mod 10)])"

declare digits.simps [simp del]

definition Sprintf_d :: "int \<Rightarrow> string" where
  "Sprintf_d i = (if i < 0 then CHR ''-'' # digits (nat (- i)) else digits (nat i))"

text \<open>
  \<^verbatim>\<open>common.BytesToAddress\<close> and \<^verbatim>\<open>common.BytesToHash\<close>: keep the last \<open>n\<close> bytes
  of a longer input, pad a shorter one with zeros on the left.
\<close>

definition SetBytes :: "nat \<Rightarrow> bytes \<Rightarrow> bytes" where
  "SetBytes n b =
     (let b' = (if length b > n then drop (length b - n) b else b)
      in replicate (n - length b') 0 @ b')"

definition BytesToAddress :: "bytes \<Rightarrow> bytes" where
  "BytesToAddress b = SetBytes 20 b"

definition BytesToHash :: "bytes \<Rightarrow> bytes" where
  "BytesToHash b = SetBytes 32 b"

subsection \<open>The SendToWasm event handler\<close>

definition notSupportedMsg :: "height \<Rightarrow> string" where
  "notSupportedMsg h = ''vmbridger not supprt at height '' @ Sprintf_d h"

definition decodeFailedMsg :: string where
  "decodeFailedMsg = ''log signature matches but failed to decode''"

text \<open>
  The three type assertions and the conversion of the amount, after a successful
  \<^verbatim>\<open>Unpack\<close>: \<open>None\<close> is a panic (an index out of range, a value of another dynamic
  type, an amount the \<^verbatim>\<open>sdk.Int\<close> constructor refuses).
\<close>

definition assertFields ::
  "('cfg, 'w, 'db, 'er) Keeper \<Rightarrow> abi_value list \<Rightarrow> (string \<times> string \<times> int) option" where
  "assertFields k unpacked =
     (case unpacked of
        AbiString wasmAddr # AbiString recipient # AbiBigInt a # _ \<Rightarrow>
          (case NewIntFromBigInt k a of
             None \<Rightarrow> None
           | Some amount \<Rightarrow> Some (wasmAddr, recipient, amount))
      | _ \<Rightarrow> None)"

definition Handle ::
  "height \<Rightarrow> ('cfg, 'w, 'db, 'er) Keeper \<Rightarrow> Context \<Rightarrow> ('cfg, 'w) World \<Rightarrow> bytes \<Rightarrow> bytes
     \<Rightarrow> error option outcome \<times> ('cfg, 'w) World" where
  "Handle earth k ctx w contract data =
     (if \<not> HigherThanEarth earth (BlockHeight ctx) then
        (Returns (Some (Wrap ErrUnknownRequest (notSupportedMsg (BlockHeight ctx)))), w)
      else if \<not> VmbridgeEnable (chain w) then
        (Returns (Some ErrVMBridgeEnable), w)
      else
        (case Unpack k data of
           Inl err \<Rightarrow>
             (Returns None, w\<lparr>calls := calls w @ [Call_LoggerError decodeFailedMsg err]\<rparr>)
         | Inr unpacked \<Rightarrow>
             (let caller = contract in
              case assertFields k unpacked of
                None \<Rightarrow> (Panics, w)
              | Some (wasmAddr, recipient, amount) \<Rightarrow>
                  (let (r, c') = SendToWasm k ctx (chain w) caller wasmAddr recipient amount
                   in (Returns r,
                       \<lparr>chain = c',
                        calls = calls w @ [Call_SendToWasm caller wasmAddr recipient amount]\<rparr>)))))"

subsection \<open>CallEvm\<close>

text \<open>
  The system account: \<^verbatim>\<open>GetAccount\<close> at the module's address, and a new account value
  when there is none.
\<close>

definition systemAccount ::
  "('cfg, 'w, 'db, 'er) Keeper \<Rightarrow> Context \<Rightarrow> ('cfg, 'w) ChainState \<Rightarrow> Account" where
  "systemAccount k ctx c =
     (let callerAddr = IbcEvmModuleETHAddr k in
      case accounts c callerAddr of
        None \<Rightarrow> NewAccountWithAddress k ctx c callerAddr
      | Some acc \<Rightarrow> acc)"

definition gasLimitFor ::
  "('cfg, 'w, 'db, 'er) Keeper \<Rightarrow> Context \<Rightarrow> ('cfg, 'w) ChainState \<Rightarrow> 64 word" where
  "gasLimitFor k ctx c =
     (if GasMeterLimit ctx = InfiniteGasMeterLimit k then MaxGasLimitPerTx c
      else GasMeterLimit ctx)"

text \<open>The \<^verbatim>\<open>StateTransition\<close> literal that \<^verbatim>\<open>CallEvm\<close> builds.\<close>

definition newStateTransition ::
  "('cfg, 'w, 'db, 'er) Keeper \<Rightarrow> Context \<Rightarrow> ('cfg, 'w) ChainState \<Rightarrow> int
     \<Rightarrow> bytes option \<Rightarrow> int \<Rightarrow> bytes \<Rightarrow> 'db StateTransition" where
  "newStateTransition k ctx c chainIDEpoch to val data =
     (let callerAddr = IbcEvmModuleETHAddr k;
          nonce = Sequence (systemAccount k ctx c);
          txHash = TxHashOf k (TxBytes ctx) (BlockHeight ctx);
          ethTxHash = BytesToHash txHash
      in \<lparr>AccountNonce = nonce,
          Price = 0,
          GasLimit = gasLimitFor k ctx c,
          Recipient = to,
          Amount = val,
          Payload = data,
          Csdb = CreateEmptyCommitStateDB k ctx c,
          ChainIDEpoch = chainIDEpoch,
          TxHash = ethTxHash,
          Sender = callerAddr,
          Simulate = IsCheckTx ctx,
          TraceTx = False,
          TraceTxLog = False\<rparr>)"

text \<open>
  Modelled from the spec: \<^verbatim>\<open>SetAccount\<close> of the account keeper is not in src/; it
  persists the account under its address, where \<^verbatim>\<open>GetAccount\<close> finds it.
\<close>

definition SetAccount :: "Account \<Rightarrow> ('cfg, 'w) ChainState \<Rightarrow> ('cfg, 'w) ChainState" where
  "SetAccount acc c = c\<lparr>accounts := (accounts c)(Address acc \<mapsto> acc)\<rparr>"

text \<open>
  \<^verbatim>\<open>CallEvm\<close> returns \<^verbatim>\<open>(nil, nil, err)\<close> or \<^verbatim>\<open>(executionResult, resultData, nil)\<close>:
  \<open>Inl err\<close> or \<open>Inr (executionResult, resultData)\<close>. The block guarded by
  \<^verbatim>\<open>!ctx.IsCheckTx() && !ctx.IsTraceTx()\<close> is empty in the source.
\<close>

definition CallEvm ::
  "('cfg, 'w, 'db, 'er) Keeper \<Rightarrow> Context \<Rightarrow> ('cfg, 'w) World \<Rightarrow> bytes option \<Rightarrow> int \<Rightarrow> bytes
     \<Rightarrow> (error + 'er \<times> ResultData) \<times> ('cfg, 'w) World" where
  "CallEvm k ctx w to val data =
     (let w0 = w\<lparr>calls := calls w @ [Call_CallEvm to val data]\<rparr> in
      case chainConfig (chain w) of
        None \<Rightarrow> (Inl ErrChainConfigNotFound, w0)
      | Some config \<Rightarrow>
          (case ParseChainID k (ChainID ctx) of
             Inl err \<Rightarrow> (Inl err, w0)
           | Inr chainIDEpoch \<Rightarrow>
               (let acc = systemAccount k ctx (chain w);
                    nonce = Sequence acc;
                    st = newStateTransition k ctx (chain w) chainIDEpoch to val data;
                    (res, csdb) = TransitionDb k ctx (chain w) config st;
                    w1 = w0\<lparr>calls := calls w0 @ [Call_TransitionDb]\<rparr>
                in case res of
                     Inl err \<Rightarrow> (Inl err, w1)
                   | Inr (executionResult, resultData) \<Rightarrow>
                       (let c1 = Commit k csdb False (chain w);
                            acc' = acc\<lparr>Sequence := nonce + 1\<rparr>;
                            c2 = SetAccount acc' c1
                        in (Inr (executionResult, resultData),
                            \<lparr>chain = c2,
                             calls = calls w1 @ [Call_Commit False, Call_SetAccount acc']\<rparr>)))))"

subsection \<open>SendToEvm\<close>

text \<open>\<^verbatim>\<open>SendToEvm\<close> returns the pair \<^verbatim>\<open>(success, err)\<close>.\<close>

definition SendToEvm ::
  "('cfg, 'w, 'db, 'er) Keeper \<Rightarrow> Context \<Rightarrow> ('cfg, 'w) World
     \<Rightarrow> string \<Rightarrow> string \<Rightarrow> string \<Rightarrow> int
     \<Rightarrow> (bool \<times> error option) \<times> ('cfg, 'w) World" where
  "SendToEvm k ctx w caller contract recipient amount =
     (if \<not> IsETHAddress k recipient then ((False, Some ErrIsNotETHAddr), w)
      else if \<not> IsETHAddress k contract then ((False, Some ErrIsNotETHAddr), w)
      else
        (case AccAddressFromBech32 k contract of
           Inl err \<Rightarrow> ((False, Some err), w)
         | Inr contractAccAddr \<Rightarrow>
             (let conrtractAddr = BytesToAddress contractAccAddr in
              case AccAddressFromBech32 k recipient of
                Inl err \<Rightarrow> ((False, Some err), w)
              | Inr recipientAccAddr \<Rightarrow>
                  (let recipientAddr = BytesToAddress recipientAccAddr in
                   case GetMintERC20Input k caller recipientAddr amount of
                     Inl err \<Rightarrow> ((False, Some err), w)
                   | Inr input \<Rightarrow>
                       (case CallEvm k ctx w (Some conrtractAddr) 0 input of
                          (Inl err, w') \<Rightarrow> ((False, Some err), w')
                        | (Inr (executionResult, result), w') \<Rightarrow>
                            (GetMintERC20Output k (Ret result), w'))))))"

section \<open>A test fixture\<close>

text \<open>
  Stand-ins for the collaborators, small enough to evaluate. The theorems below hold for
  every keeper; their instances are evaluated on this one.
  The decoder reads its input as one big-endian amount and fails on an empty input; the
  state transition fails on an empty payload and otherwise returns the payload, with
  one more pending write in the working state.
\<close>

type_synonym testState = "(unit, (string \<times> int) list) World"

definition testKeeper :: "(unit, (string \<times> int) list, nat, nat) Keeper" where
  "testKeeper =
     \<lparr>Unpack = (\<lambda>data.
        if data = [] then Inl (ErrCollaborator ''abi: attempting to unmarshall an empty string'')
        else Inr [AbiString ''wasm-contract'', AbiString ''wasm-recipient'',
                  AbiBigInt (foldl (\<lambda>a b. a * 256 + uint b) 0 data)]),
      NewIntFromBigInt = (\<lambda>i. Some i),
      SendToWasm = (\<lambda>ctx c caller wasmAddr recipient amount.
        (None, c\<lparr>others := (recipient, amount) # others c\<rparr>)),
      IsETHAddress = (\<lambda>s. take 2 s = ''0x''),
      AccAddressFromBech32 = (\<lambda>s.
        if take 2 s = ''0x'' then Inr (map (\<lambda>ch. of_nat (of_char ch)) (drop 2 s))
        else Inl (ErrCollaborator ''decoding bech32 failed'')),
      GetMintERC20Input = (\<lambda>caller recipient amount. Inr recipient),
      GetMintERC20Output = (\<lambda>ret.
        if ret = [] then (False, Some (ErrCollaborator ''call failed'')) else (True, None)),
      IbcEvmModuleETHAddr = [0xEE],
      ParseChainID = (\<lambda>s.
        if s = [] then Inl (ErrCollaborator ''chain-id cannot be blank'') else Inr 66),
      NewAccountWithAddress = (\<lambda>ctx c addr. \<lparr>Address = addr, Sequence = 0\<rparr>),
      TxHashOf = (\<lambda>tx h. tx),
      InfiniteGasMeterLimit = 0,
      CreateEmptyCommitStateDB = (\<lambda>ctx c. 0),
      TransitionDb = (\<lambda>ctx c config st.
        if Payload st = [] then (Inl (ErrCollaborator ''execution reverted''), Csdb st)
        else (Inr (21000, \<lparr>Ret = Payload st\<rparr>), Suc (Csdb st))),
      Commit = (\<lambda>csdb writeDebug c. c\<lparr>others := (''code'', int csdb) # others c\<rparr>)\<rparr>"

definition testCtx :: "height \<Rightarrow> Context" where
  "testCtx h =
     \<lparr>BlockHeight = h, ChainID = ''exchain-66'', TxBytes = [1, 2, 3],
      GasMeterLimit = 0, IsCheckTx = False, IsTraceTx = False\<rparr>"

text \<open>A world with the bridge switched on or off and the system account at sequence \<open>n\<close>.\<close>

definition testWorld :: "bool \<Rightarrow> 64 word \<Rightarrow> testState" where
  "testWorld enable n =
     \<lparr>chain =
        \<lparr>accounts = [[0xEE] \<mapsto> \<lparr>Address = [0xEE], Sequence = n\<rparr>],
         chainConfig = Some (),
         MaxGasLimitPerTx = 30000000,
         VmbridgeEnable = enable,
         others = []\<rparr>,
      calls = []\<rparr>"

text \<open>The same world without a chain configuration.\<close>

definition noChainConfig :: "testState \<Rightarrow> testState" where
  "noChainConfig w = w\<lparr>chain := (chain w)\<lparr>chainConfig := None\<rparr>\<rparr>"

section \<open>Proposal status: conversion to and from strings\<close>

lemmas Status_defs =
  StatusNil_def StatusDepositPeriod_def StatusVotingPeriod_def
  StatusPassed_def StatusRejected_def StatusFailed_def

lemma ValidProposalStatus_iff:
  "ValidProposalStatus status \<longleftrightarrow> status \<in> {0x01, 0x02, 0x03, 0x04, 0x05}"
  by (auto simp: ValidProposalStatus_def Status_defs)

text \<open>
  C10. The string conversion of a proposal status round-trips: for every valid status
  (DepositPeriod, VotingPeriod, Passed, Rejected, Failed),
  \<^verbatim>\<open>ProposalStatusFromString(status.String())\<close> is that status with no error; the
  empty string gives \<^verbatim>\<open>StatusNil\<close> with no error; every other string gives the byte
  0xff with an error.
\<close>

theorem ProposalStatus_roundtrip:
  "(ValidProposalStatus status \<longrightarrow>
      ProposalStatusFromString (ProposalStatus_String status) = (status, None))
   \<and> ProposalStatusFromString '''' = (StatusNil, None)
   \<and> (str \<notin> {''DepositPeriod'', ''VotingPeriod'', ''Passed'', ''Rejected'', ''Failed'', ''''} \<longrightarrow>
        ProposalStatusFromString str = (0xff, Some (not_valid_status_msg str)))"
  by (auto simp: ValidProposalStatus_def ProposalStatusFromString_def
      ProposalStatus_String_def Status_defs)

theorem ProposalStatus_roundtrip_witness:
  "ValidProposalStatus StatusPassed
   \<and> ProposalStatusFromString (ProposalStatus_String StatusPassed) = (StatusPassed, None)
   \<and> ProposalStatusFromString ''Passed'' = (0x03, None)
   \<and> ''Pending'' \<notin> {''DepositPeriod'', ''VotingPeriod'', ''Passed'', ''Rejected'', ''Failed'', ''''}
   \<and> ProposalStatusFromString ''Pending'' =
        (0xff, Some (CHR 0x27 # ''Pending'' @ CHR 0x27 # '' is not a valid proposal status''))"
  using ProposalStatus_roundtrip [of StatusPassed "''Pending''"]
  by (simp add: ValidProposalStatus_def Status_defs not_valid_status_msg_def
      ProposalStatus_String_def)

section \<open>The store filters by height\<close>

text \<open>
  C7. The commit filter \<^verbatim>\<open>defaultCommitFilter\<close>, asked about the wasm module at height
  \<open>h\<close>: below the activation height it filters the module's store out; at the
  activation height it keeps the store and stamps the version marker of the store it is
  handed (a nil store is kept and there is nothing to stamp), and a second evaluation at
  that height changes nothing more; above the activation height it keeps the store and
  does not stamp.
\<close>

theorem defaultCommitFilter_by_height:
  "(h < earth \<longrightarrow> defaultCommitFilter earth ModuleName h s = (True, s))
   \<and> (h = earth \<longrightarrow>
        defaultCommitFilter earth ModuleName h None = (False, None)
        \<and> defaultCommitFilter earth ModuleName h (Some st) =
            (False, Some (st\<lparr>upgradeVersion := earth\<rparr>))
        \<and> defaultCommitFilter earth ModuleName h
              (snd (defaultCommitFilter earth ModuleName h s)) =
            defaultCommitFilter earth ModuleName h s)
   \<and> (earth < h \<longrightarrow> defaultCommitFilter earth ModuleName h s = (False, s))"
  by (auto simp: defaultCommitFilter_def HigherThanEarth_def SetUpgradeVersion_def
      split: option.splits)

theorem defaultCommitFilter_by_height_witness:
  "(99::int) < 100
   \<and> defaultCommitFilter 100 ModuleName 99 (Some \<lparr>upgradeVersion = 0\<rparr>) =
        (True, Some \<lparr>upgradeVersion = 0\<rparr>)
   \<and> defaultCommitFilter 100 ModuleName 100 (Some \<lparr>upgradeVersion = 0\<rparr>) =
        (False, Some \<lparr>upgradeVersion = 100\<rparr>)
   \<and> defaultCommitFilter 100 ModuleName 100 (Some \<lparr>upgradeVersion = 100\<rparr>) =
        (False, Some \<lparr>upgradeVersion = 100\<rparr>)
   \<and> (100::int) < 101
   \<and> defaultCommitFilter 100 ModuleName 101 (Some \<lparr>upgradeVersion = 0\<rparr>) =
        (False, Some \<lparr>upgradeVersion = 0\<rparr>)"
  using defaultCommitFilter_by_height [of 99 100 "Some \<lparr>upgradeVersion = 0\<rparr>"]
    defaultCommitFilter_by_height
      [of 100 100 "Some \<lparr>upgradeVersion = 0\<rparr>" "\<lparr>upgradeVersion = 0\<rparr>"]
    defaultCommitFilter_by_height
      [of 100 100 "Some \<lparr>upgradeVersion = 0\<rparr>" "\<lparr>upgradeVersion = 100\<rparr>"]
    defaultCommitFilter_by_height [of 101 100 "Some \<lparr>upgradeVersion = 0\<rparr>"]
  by simp

text \<open>
  What the enumerator of \<^verbatim>\<open>defaultVersionFilter\<close> reports for an argument that is not
  negative: one entry, the wasm module with the activation height, whatever that is.
\<close>

lemma defaultVersionFilter_nonneg:
  "0 \<le> h \<Longrightarrow> entries (defaultVersionFilter earth h) = [(ModuleName, earth)]"
  by (simp add: defaultVersionFilter_def entries_def)

text \<open>
  C8, as the claim states it, fails: the filter does not look at the activation height.
  With the activation height unset (the negative sentinel -1) and the filter invoked at
  height 0, the enumerator reports one entry, the wasm module with the version -1.
\<close>

theorem defaultVersionFilter_reports_unset_height:
  "entries (defaultVersionFilter (- 1) 0) = [(ModuleName, - 1)]
   \<and> entries (VersionFilter (- 1) 0) = [(''wasm'', - 1)]"
  by (simp add: defaultVersionFilter_def VersionFilter_def entries_def ModuleName_def)

text \<open>
  C8, amended. The sentinel the version filter tests is its own height argument. Invoked
  with a negative argument it yields an enumerator that reports zero entries, so no
  version of any module, whatever the activation height: it never calls the callback it
  is given. Invoked with an argument that is not negative it reports exactly one entry,
  the wasm module with the activation height, also when the activation height is unset.
\<close>

theorem defaultVersionFilter_by_argument:
  "(h < 0 \<longrightarrow>
      entries (defaultVersionFilter earth h) = []
      \<and> entries (VersionFilter earth h) = []
      \<and> (\<forall>cb acc. defaultVersionFilter earth h cb acc = acc)
      \<and> (\<forall>cb acc. VersionFilter earth h cb acc = acc))
   \<and> (0 \<le> h \<longrightarrow>
        entries (defaultVersionFilter earth h) = [(ModuleName, earth)]
        \<and> entries (VersionFilter earth h) = [(ModuleName, earth)])"
  by (simp add: defaultVersionFilter_def entries_def VersionFilter_def)

theorem defaultVersionFilter_by_argument_witness:
  "(- 1 :: int) < 0
   \<and> entries (defaultVersionFilter 100 (- 1)) = []
   \<and> entries (defaultVersionFilter (- 1) (- 1)) = []
   \<and> (0 :: int) \<le> 5
   \<and> entries (defaultVersionFilter 100 5) = [(ModuleName, 100)]"
proof -
  have n: "(- 1 :: int) < 0" by simp
  have p: "(0 :: int) \<le> 5" by simp
  note neg = defaultVersionFilter_by_argument [THEN conjunct1, THEN mp, THEN conjunct1]
  note pos = defaultVersionFilter_by_argument [THEN conjunct2, THEN mp, THEN conjunct1]
  from n p neg [OF n, of 100] neg [OF n, of "- 1"] pos [OF p, of 100]
  show ?thesis by simp
qed

text \<open>
  C9. When the upgrade height is 0, \<^verbatim>\<open>CommitFilter\<close> and \<^verbatim>\<open>PruneFilter\<close> both return
  the deny filter, which filters the wasm module's store out at every height. For every
  other module name, each of the filters (deny, commit, prune) keeps the store at every
  height, whatever the activation height, and leaves the store as it is.
\<close>

theorem deny_filter_at_height_zero:
  "(UpgradeHeight earth = 0 \<longrightarrow>
      CommitFilter earth = defaultDenyFilter \<and> PruneFilter earth = defaultDenyFilter
      \<and> CommitFilter earth ModuleName h s = (True, s)
      \<and> PruneFilter earth ModuleName h s = (True, s))
   \<and> defaultDenyFilter ModuleName h s = (True, s)
   \<and> (module \<noteq> ModuleName \<longrightarrow>
        defaultDenyFilter module h s = (False, s)
        \<and> defaultCommitFilter earth module h s = (False, s)
        \<and> defaultPruneFilter earth module h s = (False, s)
        \<and> CommitFilter earth module h s = (False, s)
        \<and> PruneFilter earth module h s = (False, s))"
  by (simp add: CommitFilter_def PruneFilter_def defaultDenyFilter_def
      defaultCommitFilter_def defaultPruneFilter_def)

theorem deny_filter_at_height_zero_witness:
  "UpgradeHeight 0 = 0
   \<and> CommitFilter 0 ModuleName 5 None = (True, None)
   \<and> PruneFilter 0 ModuleName 5 None = (True, None)
   \<and> ''evm'' \<noteq> ModuleName
   \<and> CommitFilter 0 ''evm'' 5 None = (False, None)
   \<and> defaultCommitFilter 100 ''evm'' 5 None = (False, None)
   \<and> defaultPruneFilter 100 ''evm'' 5 None = (False, None)"
  using deny_filter_at_height_zero [of 0 5 None "''evm''"]
    deny_filter_at_height_zero [of 100 5 None "''evm''"]
  by (simp add: UpgradeHeight_def ModuleName_def)

section \<open>The SendToWasm event handler and its two guards\<close>

lemma notSupportedMsg_100: "notSupportedMsg 100 = ''vmbridger not supprt at height 100''"
  by code_simp

text \<open>
  C2. At every height that is not strictly greater than the activation height the handler
  returns the not-supported error (\<^verbatim>\<open>ErrUnknownRequest\<close>, wrapped with the height) at
  once; at every higher height with the enable flag off it returns
  \<^verbatim>\<open>ErrVMBridgeEnable\<close> at once. In both cases the chain state and the record of
  calls are what they were. Whenever the handler changes anything, the height is above
  the activation height and the flag is set.
\<close>

theorem Handle_refuses_unless_active:
  "(BlockHeight ctx \<le> earth \<longrightarrow>
      Handle earth k ctx w contract data =
        (Returns (Some (Wrap ErrUnknownRequest (notSupportedMsg (BlockHeight ctx)))), w))
   \<and> (earth < BlockHeight ctx \<and> \<not> VmbridgeEnable (chain w) \<longrightarrow>
        Handle earth k ctx w contract data = (Returns (Some ErrVMBridgeEnable), w))
   \<and> (snd (Handle earth k ctx w contract data) \<noteq> w \<longrightarrow>
        earth < BlockHeight ctx \<and> VmbridgeEnable (chain w))"
  by (auto simp: Handle_def HigherThanEarth_def)

theorem Handle_refuses_unless_active_witness:
  "BlockHeight (testCtx 100) \<le> 100
   \<and> Handle 100 testKeeper (testCtx 100) (testWorld True 0) [0xAA] [1, 244] =
        (Returns (Some (Wrap ErrUnknownRequest (notSupportedMsg 100))), testWorld True 0)
   \<and> 100 < BlockHeight (testCtx 101) \<and> \<not> VmbridgeEnable (chain (testWorld False 0))
   \<and> Handle 100 testKeeper (testCtx 101) (testWorld False 0) [0xAA] [1, 244] =
        (Returns (Some ErrVMBridgeEnable), testWorld False 0)
   \<and> snd (Handle 100 testKeeper (testCtx 101) (testWorld True 0) [0xAA] [1, 244]) \<noteq>
        testWorld True 0
   \<and> VmbridgeEnable (chain (testWorld True 0))"
proof -
  have changed: "snd (Handle 100 testKeeper (testCtx 101) (testWorld True 0) [0xAA] [1, 244]) \<noteq>
      testWorld True 0"
    by (simp add: Handle_def HigherThanEarth_def testCtx_def testWorld_def testKeeper_def
        assertFields_def)
  show ?thesis
    using changed
      Handle_refuses_unless_active
        [of "testCtx 100" 100 testKeeper "testWorld True 0" "[0xAA]" "[1, 244]"]
      Handle_refuses_unless_active
        [of "testCtx 101" 100 testKeeper "testWorld False 0" "[0xAA]" "[1, 244]"]
      Handle_refuses_unless_active
        [of "testCtx 101" 100 testKeeper "testWorld True 0" "[0xAA]" "[1, 244]"]
    by (simp add: testCtx_def testWorld_def)
qed

text \<open>
  The handler past both guards, on a log that decodes: when
  \<^verbatim>\<open>HigherThanEarth\<close> holds of the height, the bridge is enabled and the log decodes
  to (wasmAddr, recipient, amount), the handler calls \<^verbatim>\<open>SendToWasm\<close> once, with the
  emitting contract as caller and the decoded triple, the amount as an integer, and
  returns what \<^verbatim>\<open>SendToWasm\<close> returns.
\<close>

theorem Handle_dispatches_decoded_triple:
  assumes "HigherThanEarth earth (BlockHeight ctx)"
    and "VmbridgeEnable (chain w)"
    and "Unpack k data = Inr [AbiString wasmAddr, AbiString recipient, AbiBigInt a]"
    and "NewIntFromBigInt k a = Some amount"
  shows "Handle earth k ctx w contract data =
           (Returns (fst (SendToWasm k ctx (chain w) contract wasmAddr recipient amount)),
            \<lparr>chain = snd (SendToWasm k ctx (chain w) contract wasmAddr recipient amount),
             calls = calls w @ [Call_SendToWasm contract wasmAddr recipient amount]\<rparr>)"
  using assms by (simp add: Handle_def assertFields_def split: prod.splits)

theorem Handle_dispatches_decoded_triple_witness:
  "HigherThanEarth 100 (BlockHeight (testCtx 101))
   \<and> VmbridgeEnable (chain (testWorld True 0))
   \<and> Unpack testKeeper [1, 244] =
        Inr [AbiString ''wasm-contract'', AbiString ''wasm-recipient'', AbiBigInt 500]
   \<and> NewIntFromBigInt testKeeper 500 = Some 500
   \<and> fst (Handle 100 testKeeper (testCtx 101) (testWorld True 0) [0xAA] [1, 244]) = Returns None
   \<and> calls (snd (Handle 100 testKeeper (testCtx 101) (testWorld True 0) [0xAA] [1, 244])) =
        [Call_SendToWasm [0xAA] ''wasm-contract'' ''wasm-recipient'' 500]"
proof -
  have h: "HigherThanEarth 100 (BlockHeight (testCtx 101))"
    by (simp add: HigherThanEarth_def testCtx_def)
  have e: "VmbridgeEnable (chain (testWorld True 0))"
    by (simp add: testWorld_def)
  have u: "Unpack testKeeper [1, 244] =
      Inr [AbiString ''wasm-contract'', AbiString ''wasm-recipient'', AbiBigInt 500]"
    by (simp add: testKeeper_def)
  have n: "NewIntFromBigInt testKeeper 500 = Some 500"
    by (simp add: testKeeper_def)
  show ?thesis
    using h e u n Handle_dispatches_decoded_triple [OF h e u n, of "[0xAA]"]
    by (simp add: testKeeper_def testWorld_def)
qed

text \<open>
  C3, as the claim states it, fails: the two guards come before the decoder, so a log that
  does not decode, dispatched while the bridge is disabled, returns an error and nothing
  is logged.
\<close>

theorem Handle_disabled_ignores_bad_payload:
  "HigherThanEarth 100 (BlockHeight (testCtx 101))
   \<and> Unpack testKeeper [] =
        Inl (ErrCollaborator ''abi: attempting to unmarshall an empty string'')
   \<and> Handle 100 testKeeper (testCtx 101) (testWorld False 0) [0xAA] [] =
        (Returns (Some ErrVMBridgeEnable), testWorld False 0)"
  by (simp add: Handle_def HigherThanEarth_def testCtx_def testWorld_def testKeeper_def)

text \<open>
  C3, amended. Once both guards are passed (height above the activation height, bridge
  enabled), a log that fails to decode is logged and swallowed: the handler returns nil,
  the chain state is unchanged and \<^verbatim>\<open>SendToWasm\<close> is not called.
\<close>

theorem Handle_swallows_decode_failure:
  assumes "HigherThanEarth earth (BlockHeight ctx)"
    and "VmbridgeEnable (chain w)"
    and "Unpack k data = Inl err"
  shows "Handle earth k ctx w contract data =
           (Returns None, w\<lparr>calls := calls w @ [Call_LoggerError decodeFailedMsg err]\<rparr>)"
  using assms by (simp add: Handle_def)

theorem Handle_swallows_decode_failure_witness:
  "HigherThanEarth 100 (BlockHeight (testCtx 101))
   \<and> VmbridgeEnable (chain (testWorld True 0))
   \<and> Unpack testKeeper [] =
        Inl (ErrCollaborator ''abi: attempting to unmarshall an empty string'')
   \<and> fst (Handle 100 testKeeper (testCtx 101) (testWorld True 0) [0xAA] []) = Returns None
   \<and> chain (snd (Handle 100 testKeeper (testCtx 101) (testWorld True 0) [0xAA] [])) =
        chain (testWorld True 0)
   \<and> calls (snd (Handle 100 testKeeper (testCtx 101) (testWorld True 0) [0xAA] [])) =
        [Call_LoggerError decodeFailedMsg
           (ErrCollaborator ''abi: attempting to unmarshall an empty string'')]"
proof -
  have h: "HigherThanEarth 100 (BlockHeight (testCtx 101))"
    by (simp add: HigherThanEarth_def testCtx_def)
  have e: "VmbridgeEnable (chain (testWorld True 0))"
    by (simp add: testWorld_def)
  have u: "Unpack testKeeper [] =
      Inl (ErrCollaborator ''abi: attempting to unmarshall an empty string'')"
    by (simp add: testKeeper_def)
  show ?thesis
    using h e u Handle_swallows_decode_failure [OF h e u, of "[0xAA]"]
    by (simp add: testWorld_def)
qed

section \<open>SendToEvm: validation comes first\<close>

text \<open>
  The conversions that follow fail the same way: an address that does not convert ends
  the call with the converter's error and an unchanged world.
\<close>

lemma SendToEvm_conversion_error:
  assumes "IsETHAddress k recipient" and "IsETHAddress k contract"
    and "AccAddressFromBech32 k contract = Inl err \<or>
         (\<exists>a. AccAddressFromBech32 k contract = Inr a)
           \<and> AccAddressFromBech32 k recipient = Inl err"
  shows "SendToEvm k ctx w caller contract recipient amount = ((False, Some err), w)"
  using assms by (auto simp: SendToEvm_def)

text \<open>
  C4. When the recipient or the contract string is not an EVM address, \<^verbatim>\<open>SendToEvm\<close>
  returns \<^verbatim>\<open>(false, ErrIsNotETHAddr)\<close> at once: the result does not depend on the
  state, the chain state is unchanged, and the record of calls is unchanged, so
  \<^verbatim>\<open>CallEvm\<close> is not entered.
\<close>

theorem SendToEvm_rejects_bad_address:
  assumes "\<not> IsETHAddress k recipient \<or> \<not> IsETHAddress k contract"
  shows "SendToEvm k ctx w caller contract recipient amount = ((False, Some ErrIsNotETHAddr), w)"
  using assms by (auto simp: SendToEvm_def)

theorem SendToEvm_rejects_bad_address_witness:
  "\<not> IsETHAddress testKeeper ''not-an-eth-address''
   \<and> SendToEvm testKeeper (testCtx 101) (testWorld True 0)
        ''ex1caller'' ''0xabc'' ''not-an-eth-address'' 5 =
      ((False, Some ErrIsNotETHAddr), testWorld True 0)"
proof -
  have a: "\<not> IsETHAddress testKeeper ''not-an-eth-address''"
    by (simp add: testKeeper_def)
  then have "\<not> IsETHAddress testKeeper ''not-an-eth-address'' \<or> \<not> IsETHAddress testKeeper ''0xabc''"
    by simp
  from a SendToEvm_rejects_bad_address [OF this] show ?thesis by simp
qed

section \<open>CallEvm: failure and success\<close>

lemma CallEvm_no_config:
  "chainConfig (chain w) = None \<Longrightarrow>
     CallEvm k ctx w to val data =
       (Inl ErrChainConfigNotFound, w\<lparr>calls := calls w @ [Call_CallEvm to val data]\<rparr>)"
  by (simp add: CallEvm_def)

lemma CallEvm_bad_chain_id:
  "chainConfig (chain w) = Some config \<Longrightarrow> ParseChainID k (ChainID ctx) = Inl err \<Longrightarrow>
     CallEvm k ctx w to val data =
       (Inl err, w\<lparr>calls := calls w @ [Call_CallEvm to val data]\<rparr>)"
  by (simp add: CallEvm_def)

lemma CallEvm_transition_failed:
  "chainConfig (chain w) = Some config \<Longrightarrow> ParseChainID k (ChainID ctx) = Inr n \<Longrightarrow>
   fst (TransitionDb k ctx (chain w) config
          (newStateTransition k ctx (chain w) n to val data)) = Inl err \<Longrightarrow>
     CallEvm k ctx w to val data =
       (Inl err, w\<lparr>calls := calls w @ [Call_CallEvm to val data, Call_TransitionDb]\<rparr>)"
  by (cases "TransitionDb k ctx (chain w) config
          (newStateTransition k ctx (chain w) n to val data)")
    (simp add: CallEvm_def Let_def)

lemma CallEvm_transition_ok:
  "chainConfig (chain w) = Some config \<Longrightarrow> ParseChainID k (ChainID ctx) = Inr n \<Longrightarrow>
   TransitionDb k ctx (chain w) config
          (newStateTransition k ctx (chain w) n to val data) = (Inr (er, rd), csdb) \<Longrightarrow>
     CallEvm k ctx w to val data =
       (Inr (er, rd),
        \<lparr>chain = SetAccount ((systemAccount k ctx (chain w))
                     \<lparr>Sequence := Sequence (systemAccount k ctx (chain w)) + 1\<rparr>)
                   (Commit k csdb False (chain w)),
         calls = calls w @ [Call_CallEvm to val data, Call_TransitionDb, Call_Commit False,
           Call_SetAccount ((systemAccount k ctx (chain w))
                     \<lparr>Sequence := Sequence (systemAccount k ctx (chain w)) + 1\<rparr>)]\<rparr>)"
  by (simp add: CallEvm_def Let_def)

lemma CallEvm_cases:
  obtains (no_config) "chainConfig (chain w) = None"
  | (bad_chain_id) config err where "chainConfig (chain w) = Some config"
      "ParseChainID k (ChainID ctx) = Inl err"
  | (failed) config n err csdb where "chainConfig (chain w) = Some config"
      "ParseChainID k (ChainID ctx) = Inr n"
      "TransitionDb k ctx (chain w) config
          (newStateTransition k ctx (chain w) n to val data) = (Inl err, csdb)"
  | (ok) config n er rd csdb where "chainConfig (chain w) = Some config"
      "ParseChainID k (ChainID ctx) = Inr n"
      "TransitionDb k ctx (chain w) config
          (newStateTransition k ctx (chain w) n to val data) = (Inr (er, rd), csdb)"
proof (cases "chainConfig (chain w)")
  case None
  then show ?thesis by (rule no_config)
next
  case (Some config)
  show ?thesis
  proof (cases "ParseChainID k (ChainID ctx)")
    case (Inl err)
    with Some show ?thesis by (rule bad_chain_id)
  next
    case (Inr n)
    obtain res csdb where t: "TransitionDb k ctx (chain w) config
          (newStateTransition k ctx (chain w) n to val data) = (res, csdb)"
      by (cases "TransitionDb k ctx (chain w) config
          (newStateTransition k ctx (chain w) n to val data)")
    show ?thesis
    proof (cases res)
      case (Inl err)
      with Some Inr t show ?thesis by (auto intro: failed)
    next
      case r: (Inr p)
      obtain er rd where "p = (er, rd)" by (cases p)
      with Some Inr t r show ?thesis by (auto intro: ok)
    qed
  qed
qed

lemma CallEvm_success:
  assumes "fst (CallEvm k ctx w to val data) = Inr r"
  shows "\<exists>csdb. snd (CallEvm k ctx w to val data) =
        \<lparr>chain = SetAccount ((systemAccount k ctx (chain w))
                     \<lparr>Sequence := Sequence (systemAccount k ctx (chain w)) + 1\<rparr>)
                   (Commit k csdb False (chain w)),
         calls = calls w @ [Call_CallEvm to val data, Call_TransitionDb, Call_Commit False,
           Call_SetAccount ((systemAccount k ctx (chain w))
                     \<lparr>Sequence := Sequence (systemAccount k ctx (chain w)) + 1\<rparr>)]\<rparr>"
proof (cases rule: CallEvm_cases [where w = w and k = k and ctx = ctx and to = to
      and val = val and data = data])
  case no_config
  with assms show ?thesis by (simp add: CallEvm_no_config)
next
  case (bad_chain_id config err)
  with assms show ?thesis by (simp add: CallEvm_bad_chain_id)
next
  case (failed config n err csdb)
  with assms show ?thesis by (simp add: CallEvm_transition_failed)
next
  case (ok config n er rd csdb)
  then show ?thesis by (auto simp: CallEvm_transition_ok)
qed

lemma SendToEvm_success:
  assumes "snd (fst (SendToEvm k ctx w caller contract recipient amount)) = None"
  shows "\<exists>to input r. fst (CallEvm k ctx w (Some to) 0 input) = Inr r
          \<and> snd (SendToEvm k ctx w caller contract recipient amount) =
              snd (CallEvm k ctx w (Some to) 0 input)"
  using assms
  by (auto simp: SendToEvm_def Let_def split: if_splits sum.splits prod.splits)
    (metis fst_conv snd_conv)

lemma word64_succ:
  fixes n :: "64 word"
  shows "unat (n + 1) = (unat n + 1) mod 2 ^ 64"
    and "n \<noteq> - 1 \<Longrightarrow> unat (n + 1) = unat n + 1"
    and "n = - 1 \<Longrightarrow> n + 1 = 0"
proof -
  show "unat (n + 1) = (unat n + 1) mod 2 ^ 64"
    by (simp add: unat_word_ariths)
  show "unat (n + 1) = unat n + 1" if "n \<noteq> - 1"
  proof -
    from that have "1 + n \<noteq> 0"
      by (simp add: eq_neg_iff_add_eq_0 add.commute)
    then have "unat (1 + n) = Suc (unat n)" by (rule unatSuc)
    then show ?thesis by (simp add: add.commute)
  qed
  show "n + 1 = 0" if "n = - 1"
    using that by simp
qed

lemma accounts_SetAccount: "accounts (SetAccount acc c) (Address acc) = Some acc"
  by (simp add: SetAccount_def)

lemma testKeeper_simps:
  "IbcEvmModuleETHAddr testKeeper = [0xEE]"
  "ParseChainID testKeeper ''exchain-66'' = Inr 66"
  "ParseChainID testKeeper [] = Inl (ErrCollaborator ''chain-id cannot be blank'')"
  "TransitionDb testKeeper ctx c config st =
     (if Payload st = [] then (Inl (ErrCollaborator ''execution reverted''), Csdb st)
      else (Inr (21000, \<lparr>Ret = Payload st\<rparr>), Suc (Csdb st)))"
  "Commit testKeeper csdb b c = c\<lparr>others := (''code'', int csdb) # others c\<rparr>"
  "CreateEmptyCommitStateDB testKeeper ctx c = 0"
  by (simp_all add: testKeeper_def)

lemma test_systemAccount:
  "systemAccount testKeeper ctx (chain (testWorld e n)) = \<lparr>Address = [0xEE], Sequence = n\<rparr>"
  by (simp add: systemAccount_def testWorld_def testKeeper_def)

lemma test_CallEvm_ok:
  assumes "data \<noteq> []"
  shows "CallEvm testKeeper (testCtx 101) (testWorld True n) to 0 data =
     (Inr (21000, \<lparr>Ret = data\<rparr>),
      \<lparr>chain = SetAccount \<lparr>Address = [0xEE], Sequence = n + 1\<rparr>
                 (Commit testKeeper 1 False (chain (testWorld True n))),
       calls = [Call_CallEvm to 0 data, Call_TransitionDb, Call_Commit False,
                Call_SetAccount \<lparr>Address = [0xEE], Sequence = n + 1\<rparr>]\<rparr>)"
proof -
  have c: "chainConfig (chain (testWorld True n)) = Some ()"
    by (simp add: testWorld_def)
  have p: "ParseChainID testKeeper (ChainID (testCtx 101)) = Inr 66"
    by (simp add: testCtx_def testKeeper_simps)
  have t: "TransitionDb testKeeper (testCtx 101) (chain (testWorld True n)) ()
      (newStateTransition testKeeper (testCtx 101) (chain (testWorld True n)) 66
         to 0 data) = (Inr (21000, \<lparr>Ret = data\<rparr>), 1)"
    using assms by (simp add: testKeeper_simps newStateTransition_def Let_def)
  show ?thesis
    using CallEvm_transition_ok [OF c p t]
    by (simp add: test_systemAccount) (simp add: testWorld_def)
qed

lemma test_SendToEvm_ok:
  "SendToEvm testKeeper (testCtx 101) (testWorld True n) ''ex1caller'' ''0xabc'' ''0xdef'' 5 =
     ((True, None),
      snd (CallEvm testKeeper (testCtx 101) (testWorld True n)
             (Some (BytesToAddress [0x61, 0x62, 0x63])) 0 (BytesToAddress [0x64, 0x65, 0x66])))"
proof -
  have ne: "BytesToAddress [0x64, 0x65, 0x66] \<noteq> []"
    by (simp add: BytesToAddress_def SetBytes_def)
  have k: "IsETHAddress testKeeper ''0xabc''" "IsETHAddress testKeeper ''0xdef''"
    "AccAddressFromBech32 testKeeper ''0xabc'' = Inr [0x61, 0x62, 0x63]"
    "AccAddressFromBech32 testKeeper ''0xdef'' = Inr [0x64, 0x65, 0x66]"
    "\<And>c r a. GetMintERC20Input testKeeper c r a = Inr r"
    "\<And>ret. GetMintERC20Output testKeeper ret =
       (if ret = [] then (False, Some (ErrCollaborator ''call failed'')) else (True, None))"
    by (simp_all add: testKeeper_def)
  show ?thesis
    by (simp add: SendToEvm_def k test_CallEvm_ok [OF ne] ne)
qed

text \<open>
  C5. Every failing step of \<^verbatim>\<open>CallEvm\<close> returns its error: a missing chain
  configuration, a chain identifier that does not parse, a state transition that fails.
  Whenever \<^verbatim>\<open>CallEvm\<close> returns an error, the chain state is what it was (so the
  sequence number of the system account is unchanged), and the only calls made are the
  entry into \<^verbatim>\<open>CallEvm\<close> and at most the state transition: no commit of the working
  state, no \<^verbatim>\<open>SetAccount\<close>.
\<close>

theorem CallEvm_failure_leaves_state:
  "(chainConfig (chain w) = None \<longrightarrow>
      CallEvm k ctx w to val data =
        (Inl ErrChainConfigNotFound, w\<lparr>calls := calls w @ [Call_CallEvm to val data]\<rparr>))
   \<and> (chainConfig (chain w) = Some config \<and> ParseChainID k (ChainID ctx) = Inl err \<longrightarrow>
        CallEvm k ctx w to val data =
          (Inl err, w\<lparr>calls := calls w @ [Call_CallEvm to val data]\<rparr>))
   \<and> (chainConfig (chain w) = Some config \<and> ParseChainID k (ChainID ctx) = Inr n
        \<and> fst (TransitionDb k ctx (chain w) config
                 (newStateTransition k ctx (chain w) n to val data)) = Inl err \<longrightarrow>
        CallEvm k ctx w to val data =
          (Inl err, w\<lparr>calls := calls w @ [Call_CallEvm to val data, Call_TransitionDb]\<rparr>))
   \<and> (isl (fst (CallEvm k ctx w to val data)) \<longrightarrow>
        chain (snd (CallEvm k ctx w to val data)) = chain w
        \<and> (calls (snd (CallEvm k ctx w to val data)) = calls w @ [Call_CallEvm to val data]
           \<or> calls (snd (CallEvm k ctx w to val data)) =
               calls w @ [Call_CallEvm to val data, Call_TransitionDb]))"
proof (intro conjI impI)
  assume "chainConfig (chain w) = None"
  then show "CallEvm k ctx w to val data =
      (Inl ErrChainConfigNotFound, w\<lparr>calls := calls w @ [Call_CallEvm to val data]\<rparr>)"
    by (rule CallEvm_no_config)
next
  assume "chainConfig (chain w) = Some config \<and> ParseChainID k (ChainID ctx) = Inl err"
  then show "CallEvm k ctx w to val data =
      (Inl err, w\<lparr>calls := calls w @ [Call_CallEvm to val data]\<rparr>)"
    by (simp add: CallEvm_bad_chain_id)
next
  assume "chainConfig (chain w) = Some config \<and> ParseChainID k (ChainID ctx) = Inr n
        \<and> fst (TransitionDb k ctx (chain w) config
                 (newStateTransition k ctx (chain w) n to val data)) = Inl err"
  then show "CallEvm k ctx w to val data =
      (Inl err, w\<lparr>calls := calls w @ [Call_CallEvm to val data, Call_TransitionDb]\<rparr>)"
    by (simp add: CallEvm_transition_failed)
next
  assume f: "isl (fst (CallEvm k ctx w to val data))"
  show "chain (snd (CallEvm k ctx w to val data)) = chain w"
    using f by (cases rule: CallEvm_cases [where w = w and k = k and ctx = ctx and to = to and val = val and data = data])
      (simp_all add: CallEvm_no_config CallEvm_bad_chain_id CallEvm_transition_failed
        CallEvm_transition_ok)
  show "calls (snd (CallEvm k ctx w to val data)) = calls w @ [Call_CallEvm to val data]
      \<or> calls (snd (CallEvm k ctx w to val data)) =
          calls w @ [Call_CallEvm to val data, Call_TransitionDb]"
    using f by (cases rule: CallEvm_cases [where w = w and k = k and ctx = ctx and to = to and val = val and data = data])
      (simp_all add: CallEvm_no_config CallEvm_bad_chain_id CallEvm_transition_failed
        CallEvm_transition_ok)
qed

theorem CallEvm_failure_leaves_state_witness:
  "chainConfig (chain (noChainConfig (testWorld True 7))) = None
   \<and> CallEvm testKeeper (testCtx 101) (noChainConfig (testWorld True 7)) (Some [0xC0]) 0 [1] =
        (Inl ErrChainConfigNotFound,
         (noChainConfig (testWorld True 7))\<lparr>calls := [Call_CallEvm (Some [0xC0]) 0 [1]]\<rparr>)
   \<and> chainConfig (chain (testWorld True 7)) = Some ()
   \<and> ParseChainID testKeeper (ChainID ((testCtx 101)\<lparr>ChainID := []\<rparr>)) =
        Inl (ErrCollaborator ''chain-id cannot be blank'')
   \<and> CallEvm testKeeper ((testCtx 101)\<lparr>ChainID := []\<rparr>) (testWorld True 7) (Some [0xC0]) 0 [1] =
        (Inl (ErrCollaborator ''chain-id cannot be blank''),
         (testWorld True 7)\<lparr>calls := [Call_CallEvm (Some [0xC0]) 0 [1]]\<rparr>)
   \<and> ParseChainID testKeeper (ChainID (testCtx 101)) = Inr 66
   \<and> fst (TransitionDb testKeeper (testCtx 101) (chain (testWorld True 7)) ()
            (newStateTransition testKeeper (testCtx 101) (chain (testWorld True 7)) 66
               (Some [0xC0]) 0 [])) = Inl (ErrCollaborator ''execution reverted'')
   \<and> CallEvm testKeeper (testCtx 101) (testWorld True 7) (Some [0xC0]) 0 [] =
        (Inl (ErrCollaborator ''execution reverted''),
         (testWorld True 7)\<lparr>calls := [Call_CallEvm (Some [0xC0]) 0 [], Call_TransitionDb]\<rparr>)
   \<and> isl (fst (CallEvm testKeeper (testCtx 101) (testWorld True 7) (Some [0xC0]) 0 []))
   \<and> accounts (chain (snd (CallEvm testKeeper (testCtx 101) (testWorld True 7)
          (Some [0xC0]) 0 []))) [0xEE] = Some \<lparr>Address = [0xEE], Sequence = 7\<rparr>"
proof -
  have n: "chainConfig (chain (noChainConfig (testWorld True 7))) = None"
    by (simp add: noChainConfig_def)
  have c: "chainConfig (chain (testWorld True 7)) = Some ()"
    by (simp add: testWorld_def)
  have b: "ParseChainID testKeeper (ChainID ((testCtx 101)\<lparr>ChainID := []\<rparr>)) =
      Inl (ErrCollaborator ''chain-id cannot be blank'')"
    by (simp add: testKeeper_simps)
  have p: "ParseChainID testKeeper (ChainID (testCtx 101)) = Inr 66"
    by (simp add: testCtx_def testKeeper_simps)
  have t: "fst (TransitionDb testKeeper (testCtx 101) (chain (testWorld True 7)) ()
            (newStateTransition testKeeper (testCtx 101) (chain (testWorld True 7)) 66
               (Some [0xC0]) 0 [])) = Inl (ErrCollaborator ''execution reverted'')"
    by (simp add: testKeeper_simps newStateTransition_def Let_def)
  have a: "accounts (chain (testWorld True 7)) [0xEE] = Some \<lparr>Address = [0xEE], Sequence = 7\<rparr>"
    by (simp add: testWorld_def)
  have e: "calls (noChainConfig (testWorld True 7)) = []" "calls (testWorld True 7) = []"
    by (simp_all add: noChainConfig_def testWorld_def)
  show ?thesis
    using n c b p t a e
      CallEvm_failure_leaves_state [where w = "noChainConfig (testWorld True 7)"
        and k = testKeeper and ctx = "testCtx 101" and to = "Some [0xC0]" and val = 0
        and data = "[1]"]
      CallEvm_failure_leaves_state [where w = "testWorld True 7"
        and k = testKeeper and ctx = "(testCtx 101)\<lparr>ChainID := []\<rparr>" and to = "Some [0xC0]"
        and val = 0 and data = "[1]" and config = "()"
        and err = "ErrCollaborator ''chain-id cannot be blank''"]
      CallEvm_failure_leaves_state [where w = "testWorld True 7"
        and k = testKeeper and ctx = "testCtx 101" and to = "Some [0xC0]"
        and val = 0 and data = "[]" and config = "()" and n = 66
        and err = "ErrCollaborator ''execution reverted''"]
    by simp
qed

text \<open>
  C6, as the claim states it, fails at the top of the range: the sequence number is a
  \<^verbatim>\<open>uint64\<close>, and a successful call that reads the largest value persists the
  sequence number 0, not one more.
\<close>

theorem CallEvm_sequence_wraps:
  "Sequence (systemAccount testKeeper (testCtx 101) (chain (testWorld True 0xFFFFFFFFFFFFFFFF))) =
     0xFFFFFFFFFFFFFFFF
   \<and> fst (CallEvm testKeeper (testCtx 101) (testWorld True 0xFFFFFFFFFFFFFFFF)
           (Some [0xC0]) 0 [1]) = Inr (21000, \<lparr>Ret = [1]\<rparr>)
   \<and> accounts (chain (snd (CallEvm testKeeper (testCtx 101) (testWorld True 0xFFFFFFFFFFFFFFFF)
           (Some [0xC0]) 0 [1]))) [0xEE] = Some \<lparr>Address = [0xEE], Sequence = 0\<rparr>"
  by (simp add: test_CallEvm_ok test_systemAccount SetAccount_def)

text \<open>
  C6, amended. After every successful \<^verbatim>\<open>CallEvm\<close>, hence after every
  \<^verbatim>\<open>SendToEvm\<close> that returns no error, the system account is stored with the
  sequence number read at the start of the call plus 1 in 64-bit unsigned arithmetic:
  exactly one more unless the value read is the largest one, \<open>2 ^ 64 - 1\<close>. The calls
  are, in this order, the state transition, the commit of the working state (with
  \<^verbatim>\<open>false\<close>), and \<^verbatim>\<open>SetAccount\<close> with the advanced account: the account is
  persisted after the sub-commit and overwrites whatever the commit wrote for it.
\<close>

theorem CallEvm_success_advances_sequence:
  fixes k :: "('cfg, 'w, 'db, 'er) Keeper" and ctx :: Context and w :: "('cfg, 'w) World"
  defines "acc \<equiv> systemAccount k ctx (chain w)"
  shows
  "(fst (CallEvm k ctx w to val data) = Inr r \<longrightarrow>
      accounts (chain (snd (CallEvm k ctx w to val data))) (Address acc) =
        Some (acc\<lparr>Sequence := Sequence acc + 1\<rparr>)
      \<and> calls (snd (CallEvm k ctx w to val data)) =
          calls w @ [Call_CallEvm to val data, Call_TransitionDb, Call_Commit False,
                     Call_SetAccount (acc\<lparr>Sequence := Sequence acc + 1\<rparr>)])
   \<and> (snd (fst (SendToEvm k ctx w caller contract recipient amount)) = None \<longrightarrow>
        accounts (chain (snd (SendToEvm k ctx w caller contract recipient amount)))
          (Address acc) = Some (acc\<lparr>Sequence := Sequence acc + 1\<rparr>))
   \<and> unat (Sequence acc + 1) = (unat (Sequence acc) + 1) mod 2 ^ 64
   \<and> (Sequence acc \<noteq> - 1 \<longrightarrow> unat (Sequence acc + 1) = unat (Sequence acc) + 1)"
proof (intro conjI impI)
  assume ok: "fst (CallEvm k ctx w to val data) = Inr r"
  from CallEvm_success [OF ok] obtain csdb where
    w': "snd (CallEvm k ctx w to val data) =
        \<lparr>chain = SetAccount (acc\<lparr>Sequence := Sequence acc + 1\<rparr>)
                   (Commit k csdb False (chain w)),
         calls = calls w @ [Call_CallEvm to val data, Call_TransitionDb, Call_Commit False,
           Call_SetAccount (acc\<lparr>Sequence := Sequence acc + 1\<rparr>)]\<rparr>"
    unfolding acc_def by blast
  have "accounts (SetAccount (acc\<lparr>Sequence := Sequence acc + 1\<rparr>)
      (Commit k csdb False (chain w))) (Address (acc\<lparr>Sequence := Sequence acc + 1\<rparr>)) =
      Some (acc\<lparr>Sequence := Sequence acc + 1\<rparr>)"
    by (rule accounts_SetAccount)
  with w' show "accounts (chain (snd (CallEvm k ctx w to val data))) (Address acc) =
        Some (acc\<lparr>Sequence := Sequence acc + 1\<rparr>)"
    by simp
  from w' show "calls (snd (CallEvm k ctx w to val data)) =
          calls w @ [Call_CallEvm to val data, Call_TransitionDb, Call_Commit False,
                     Call_SetAccount (acc\<lparr>Sequence := Sequence acc + 1\<rparr>)]"
    by simp
next
  assume "snd (fst (SendToEvm k ctx w caller contract recipient amount)) = None"
  from SendToEvm_success [OF this] obtain to' input r' where
    ok: "fst (CallEvm k ctx w (Some to') 0 input) = Inr r'" and
    same: "snd (SendToEvm k ctx w caller contract recipient amount) =
              snd (CallEvm k ctx w (Some to') 0 input)"
    by blast
  from CallEvm_success [OF ok] obtain csdb where
    w': "snd (CallEvm k ctx w (Some to') 0 input) =
        \<lparr>chain = SetAccount (acc\<lparr>Sequence := Sequence acc + 1\<rparr>)
                   (Commit k csdb False (chain w)),
         calls = calls w @ [Call_CallEvm (Some to') 0 input, Call_TransitionDb,
           Call_Commit False, Call_SetAccount (acc\<lparr>Sequence := Sequence acc + 1\<rparr>)]\<rparr>"
    unfolding acc_def by blast
  have "accounts (SetAccount (acc\<lparr>Sequence := Sequence acc + 1\<rparr>)
      (Commit k csdb False (chain w))) (Address (acc\<lparr>Sequence := Sequence acc + 1\<rparr>)) =
      Some (acc\<lparr>Sequence := Sequence acc + 1\<rparr>)"
    by (rule accounts_SetAccount)
  with w' same show "accounts (chain (snd (SendToEvm k ctx w caller contract recipient amount)))
          (Address acc) = Some (acc\<lparr>Sequence := Sequence acc + 1\<rparr>)"
    by simp
next
  show "unat (Sequence acc + 1) = (unat (Sequence acc) + 1) mod 2 ^ 64"
    by (rule word64_succ(1))
next
  assume "Sequence acc \<noteq> - 1"
  then show "unat (Sequence acc + 1) = unat (Sequence acc) + 1"
    by (rule word64_succ(2))
qed

theorem CallEvm_success_advances_sequence_witness:
  "fst (CallEvm testKeeper (testCtx 101) (testWorld True 7) (Some [0xC0]) 0 [1]) =
     Inr (21000, \<lparr>Ret = [1]\<rparr>)
   \<and> accounts (chain (snd (CallEvm testKeeper (testCtx 101) (testWorld True 7)
          (Some [0xC0]) 0 [1]))) [0xEE] = Some \<lparr>Address = [0xEE], Sequence = 8\<rparr>
   \<and> calls (snd (CallEvm testKeeper (testCtx 101) (testWorld True 7) (Some [0xC0]) 0 [1])) =
        [Call_CallEvm (Some [0xC0]) 0 [1], Call_TransitionDb, Call_Commit False,
         Call_SetAccount \<lparr>Address = [0xEE], Sequence = 8\<rparr>]
   \<and> snd (fst (SendToEvm testKeeper (testCtx 101) (testWorld True 7)
          ''ex1caller'' ''0xabc'' ''0xdef'' 5)) = None
   \<and> accounts (chain (snd (SendToEvm testKeeper (testCtx 101) (testWorld True 7)
          ''ex1caller'' ''0xabc'' ''0xdef'' 5))) [0xEE] =
        Some \<lparr>Address = [0xEE], Sequence = 8\<rparr>
   \<and> (7 :: 64 word) \<noteq> - 1
   \<and> unat (7 + 1 :: 64 word) = unat (7 :: 64 word) + 1"
proof -
  have ok: "fst (CallEvm testKeeper (testCtx 101) (testWorld True 7) (Some [0xC0]) 0 [1]) =
      Inr (21000, \<lparr>Ret = [1]\<rparr>)"
    by (simp add: test_CallEvm_ok)
  have sent: "snd (fst (SendToEvm testKeeper (testCtx 101) (testWorld True 7)
      ''ex1caller'' ''0xabc'' ''0xdef'' 5)) = None"
    by (simp add: test_SendToEvm_ok)
  have acc: "systemAccount testKeeper (testCtx 101) (chain (testWorld True 7)) =
      \<lparr>Address = [0xEE], Sequence = 7\<rparr>"
    by (rule test_systemAccount)
  have e: "calls (testWorld True 7) = []"
    by (simp add: testWorld_def)
  show ?thesis
    using ok sent e
      CallEvm_success_advances_sequence [where k = testKeeper and ctx = "testCtx 101"
        and w = "testWorld True 7" and to = "Some [0xC0]" and val = 0 and data = "[1]"
        and r = "(21000, \<lparr>Ret = [1]\<rparr>)" and caller = "''ex1caller''"
        and contract = "''0xabc''" and recipient = "''0xdef''" and amount = 5]
    by (simp add: acc)
qed

end
